theory Spec2Isabelle
  imports Main
begin

section \<open>The stack of lib/stack.ts as a resource graph\<close>

text \<open>
  The program is one class, \<open>Stack\<close>, whose constructor calls a fixed sequence of
  builder methods. Each builder creates constructs in the stack's scope
  (\<open>new X(this, id, props)\<close>) and some of them change constructs that already exist
  (\<open>addIngressRule\<close>, \<open>configureHealthCheck\<close>, \<open>autoScaleTaskCount\<close>, ...).
  The model keeps the scope as the list of its children in creation order and passes
  it through every builder. A construct is referred to by its id, so that a later
  change of a construct is seen through every handle to it. Attributes that the
  cloud provider resolves at deployment (hostnames, ARNs, secret fields) are kept as
  the expression the source writes.
\<close>

subsection \<open>Module constants\<close>

record config =
  HOSTED_ZONE_ID :: string
  ZONE_NAME :: string
  CONTAINER_PORT :: nat
  CONTAINER_HEALTHCHECK_PATH :: string

definition sourceConfig :: config where
  "sourceConfig =
     \<lparr>HOSTED_ZONE_ID = ''xxx'', ZONE_NAME = ''yyy.com'', CONTAINER_PORT = 80,
      CONTAINER_HEALTHCHECK_PATH = ''/foo/bar.html''\<rparr>"

subsection \<open>Values that are resolved at deployment\<close>

type_synonym construct_id = string

datatype secret = GeneratedSecret construct_id

datatype token =
    Plain string
  | ClusterEndpointHostname construct_id
  | UnsafeUnwrap secret string
  | AttrRedisEndpointAddress construct_id
  | SecurityGroupId construct_id
  | AttrArn construct_id
  | Undefined

subsection \<open>Props of the constructs\<close>

record hosted_zone =
  zone_construct :: construct_id
  hostedZoneId :: string
  zoneName :: string

datatype subnet_type = PUBLIC | PRIVATE_WITH_EGRESS

record subnet_configuration =
  cidrMask :: nat
  subnet_name :: string
  subnetType :: subnet_type

record vpc_props =
  maxAzs :: nat
  natGateways :: nat
  subnetConfiguration :: "subnet_configuration list"

datatype peer = ServiceSecurityGroup construct_id nat

datatype port = Tcp nat

record security_group =
  sg_vpc :: construct_id
  description :: string
  ingressRules :: "(peer \<times> port) list"

datatype cluster_engine = AuroraMysql string

datatype instance_class = M7G

datatype instance_size = MEDIUM

record cluster_instance =
  instance_id :: string
  instanceClass :: instance_class
  instanceSize :: instance_size

record database_cluster_props =
  engine :: cluster_engine
  writer :: cluster_instance
  readers :: "cluster_instance list"
  defaultDatabaseName :: string
  db_vpc :: construct_id
  securityGroups :: "construct_id list"

record database_cluster =
  cluster_construct :: construct_id
  cluster_secret :: "secret option"

record cache_cluster_props =
  cache_engine :: string
  engineVersion :: string
  numCacheNodes :: nat
  cacheNodeType :: string
  vpcSecurityGroupIds :: "token list"

datatype certificate_validation = FromDns construct_id

record certificate_props =
  domainName :: string
  subjectAlternativeNames :: "string list"
  validation :: certificate_validation

datatype container_image = FromAsset string

datatype scaling_policy =
    ScaleOnCpuUtilization string nat
  | ScaleOnRequestCount string nat construct_id

record scalable_task_count =
  minCapacity :: nat
  maxCapacity :: nat
  policies :: "scaling_policy list"

datatype grant = ReadWrite construct_id

record fargate_service =
  service_cluster :: construct_id
  memoryLimitMiB :: nat
  listenerPort :: nat
  image :: container_image
  containerPort :: nat
  environment :: "(string \<times> token) list"
  desiredCount :: nat
  service_certificate :: construct_id
  healthCheckPath :: "string option"
  scaling :: "scalable_task_count option"
  taskRoleGrants :: "grant list"

datatype default_action = Allow

datatype override_action = OverrideNone

record visibility_config =
  sampledRequestsEnabled :: bool
  cloudWatchMetricsEnabled :: bool
  metricName :: string

record managed_rule_group_statement =
  vendorName :: string
  group_name :: string

record waf_rule =
  rule_name :: string
  priority :: nat
  overrideAction :: override_action
  managedRuleGroupStatement :: managed_rule_group_statement
  rule_visibilityConfig :: visibility_config

record web_acl_props =
  defaultAction :: default_action
  acl_scope :: string
  rules :: "waf_rule list"
  acl_visibilityConfig :: visibility_config

datatype origin_protocol_policy = ORIGIN_HTTP_ONLY | ORIGIN_MATCH_VIEWER | ORIGIN_HTTPS_ONLY

datatype viewer_protocol_policy = VIEWER_HTTPS_ONLY | REDIRECT_TO_HTTPS | VIEWER_ALLOW_ALL

datatype allowed_methods = ALLOW_GET_HEAD | ALLOW_GET_HEAD_OPTIONS | ALLOW_ALL

datatype cached_methods = CACHE_GET_HEAD | CACHE_GET_HEAD_OPTIONS

record load_balancer_v2_origin =
  loadBalancer :: construct_id
  protocolPolicy :: origin_protocol_policy
  httpPort :: nat
  httpsPort :: nat

record distribution_props =
  origin :: load_balancer_v2_origin
  viewerProtocolPolicy :: viewer_protocol_policy
  allowedMethods :: allowed_methods
  cachedMethods :: cached_methods
  domainNames :: "string list"
  distribution_certificate :: construct_id
  webAclId :: token

datatype record_target = CloudFrontTarget construct_id

record a_record_props =
  target :: record_target
  zone :: construct_id

datatype construct =
    HostedZone hosted_zone
  | Vpc vpc_props
  | CfnWebACL web_acl_props
  | Bucket
  | SecurityGroup security_group
  | DatabaseCluster database_cluster_props
  | CfnCacheCluster cache_cluster_props
  | Cluster construct_id
  | Certificate certificate_props
  | ApplicationLoadBalancedFargateService fargate_service
  | Distribution distribution_props
  | ARecord a_record_props

subsection \<open>The scope: the children of the stack, in creation order\<close>

text \<open>
  \<open>dependsOn\<close> lists the constructs whose handles are used to create or to wire the
  node: the handles written in its props and the handles its builder method uses on it.
  A reference from a construct to one of its own parts (the request-count policy names
  the service's own target group) is not a dependency between constructs. An ingress
  rule added to a security group after its creation is kept in the group's rule list
  and names the group it admits; it is not a dependency of the security group.
\<close>

record node =
  node_id :: construct_id
  dependsOn :: "construct_id list"
  props :: construct

type_synonym scope = "node list"

definition newConstruct :: "construct_id \<Rightarrow> construct_id list \<Rightarrow> construct \<Rightarrow> scope \<Rightarrow> scope" where
  "newConstruct i ds c this = this @ [\<lparr>node_id = i, dependsOn = ds, props = c\<rparr>]"

definition updateConstruct :: "construct_id \<Rightarrow> (construct \<Rightarrow> construct) \<Rightarrow> scope \<Rightarrow> scope" where
  "updateConstruct i f this =
     map (\<lambda>n. if node_id n = i then n\<lparr>props := f (props n)\<rparr> else n) this"

subsection \<open>Changes made to a construct after it was created\<close>

text \<open>
  Each of these is one call of the source on an existing object. \<open>addIngressRule\<close>
  records the call as one rule of the group, in call order.
\<close>

fun addIngressRule :: "peer \<Rightarrow> port \<Rightarrow> construct \<Rightarrow> construct" where
  "addIngressRule p c (SecurityGroup sg) =
     SecurityGroup (sg\<lparr>ingressRules := ingressRules sg @ [(p, c)]\<rparr>)"
| "addIngressRule p c other = other"

fun configureHealthCheck :: "string \<Rightarrow> construct \<Rightarrow> construct" where
  "configureHealthCheck path (ApplicationLoadBalancedFargateService s) =
     ApplicationLoadBalancedFargateService (s\<lparr>healthCheckPath := Some path\<rparr>)"
| "configureHealthCheck path other = other"

fun autoScaleTaskCount :: "nat \<Rightarrow> nat \<Rightarrow> construct \<Rightarrow> construct" where
  "autoScaleTaskCount lo hi (ApplicationLoadBalancedFargateService s) =
     ApplicationLoadBalancedFargateService
       (s\<lparr>scaling := Some \<lparr>minCapacity = lo, maxCapacity = hi, policies = []\<rparr>\<rparr>)"
| "autoScaleTaskCount lo hi other = other"

definition addPolicy :: "scaling_policy \<Rightarrow> fargate_service \<Rightarrow> fargate_service" where
  "addPolicy p s =
     (case scaling s of
        None \<Rightarrow> s
      | Some sc \<Rightarrow> s\<lparr>scaling := Some (sc\<lparr>policies := policies sc @ [p]\<rparr>)\<rparr>)"

fun scaleOnCpuUtilization :: "string \<Rightarrow> nat \<Rightarrow> construct \<Rightarrow> construct" where
  "scaleOnCpuUtilization i targetUtilizationPercent (ApplicationLoadBalancedFargateService s) =
     ApplicationLoadBalancedFargateService
       (addPolicy (ScaleOnCpuUtilization i targetUtilizationPercent) s)"
| "scaleOnCpuUtilization i targetUtilizationPercent other = other"

fun scaleOnRequestCount :: "string \<Rightarrow> nat \<Rightarrow> construct_id \<Rightarrow> construct \<Rightarrow> construct" where
  "scaleOnRequestCount i requestsPerTarget targetGroup (ApplicationLoadBalancedFargateService s) =
     ApplicationLoadBalancedFargateService
       (addPolicy (ScaleOnRequestCount i requestsPerTarget targetGroup) s)"
| "scaleOnRequestCount i requestsPerTarget targetGroup other = other"

fun grantReadWrite :: "construct_id \<Rightarrow> construct \<Rightarrow> construct" where
  "grantReadWrite bucket (ApplicationLoadBalancedFargateService s) =
     ApplicationLoadBalancedFargateService (s\<lparr>taskRoleGrants := taskRoleGrants s @ [ReadWrite bucket]\<rparr>)"
| "grantReadWrite bucket other = other"

subsection \<open>The builder methods\<close>

definition importRoute53Zone :: "config \<Rightarrow> scope \<Rightarrow> hosted_zone \<times> scope" where
  "importRoute53Zone cfg this =
     (let z = \<lparr>zone_construct = ''Zone'', hostedZoneId = HOSTED_ZONE_ID cfg,
                zoneName = ZONE_NAME cfg\<rparr>
      in (z, newConstruct ''Zone'' [] (HostedZone z) this))"

definition createCertificate :: "hosted_zone \<Rightarrow> scope \<Rightarrow> construct_id \<times> scope" where
  "createCertificate route53Zone this =
     (''Certificate'',
      newConstruct ''Certificate'' [zone_construct route53Zone]
        (Certificate
           \<lparr>domainName = zoneName route53Zone,
            subjectAlternativeNames = [''*.'' @ zoneName route53Zone],
            validation = FromDns (zone_construct route53Zone)\<rparr>) this)"

definition createVpc :: "scope \<Rightarrow> construct_id \<times> scope" where
  "createVpc this =
     (''Vpc'',
      newConstruct ''Vpc'' []
        (Vpc \<lparr>maxAzs = 2, natGateways = 1,
              subnetConfiguration =
                [\<lparr>cidrMask = 24, subnet_name = ''public'', subnetType = PUBLIC\<rparr>,
                 \<lparr>cidrMask = 24, subnet_name = ''private'',
                  subnetType = PRIVATE_WITH_EGRESS\<rparr>]\<rparr>) this)"

definition createBucket :: "scope \<Rightarrow> construct_id \<times> scope" where
  "createBucket this = (''Bucket'', newConstruct ''Bucket'' [] Bucket this)"

definition createEcsCluster :: "construct_id \<Rightarrow> scope \<Rightarrow> construct_id \<times> scope" where
  "createEcsCluster vpc this = (''Cluster'', newConstruct ''Cluster'' [vpc] (Cluster vpc) this)"

text \<open>
  \<open>rdsCluster.secret?.secretValueFromJson(field).unsafeUnwrap()!\<close>: the optional chain
  gives \<open>undefined\<close> when the cluster has no secret; the final \<open>!\<close> is a compile-time
  assertion only.
\<close>

definition secretValueFromJson :: "secret option \<Rightarrow> string \<Rightarrow> token" where
  "secretValueFromJson s field =
     (case s of None \<Rightarrow> Undefined | Some sec \<Rightarrow> UnsafeUnwrap sec field)"

definition createLoadBalancedEcsService ::
  "config \<Rightarrow> construct_id \<Rightarrow> database_cluster \<Rightarrow> construct_id \<Rightarrow> construct_id \<Rightarrow> construct_id
     \<Rightarrow> construct_id \<Rightarrow> construct_id \<Rightarrow> scope \<Rightarrow> construct_id \<times> scope" where
  "createLoadBalancedEcsService cfg ecsCluster rdsCluster cacheCluster rdsSecurityGroup
       cacheSecurityGroup certificate bucket this =
     (let service = ''Service'';
          this = newConstruct service
            [ecsCluster, cluster_construct rdsCluster, cacheCluster, rdsSecurityGroup,
             cacheSecurityGroup, certificate, bucket]
            (ApplicationLoadBalancedFargateService
               \<lparr>service_cluster = ecsCluster,
                memoryLimitMiB = 1024,
                listenerPort = 443,
                image = FromAsset ''./app'',
                containerPort = CONTAINER_PORT cfg,
                environment =
                  [(''DB_HOST'', ClusterEndpointHostname (cluster_construct rdsCluster)),
                   (''DB_USER'', secretValueFromJson (cluster_secret rdsCluster) ''username''),
                   (''DB_PASSWORD'', secretValueFromJson (cluster_secret rdsCluster) ''password''),
                   (''DB_NAME'', Plain ''wordpress''),
                   (''CACHE_HOST'', AttrRedisEndpointAddress cacheCluster)],
                desiredCount = 2,
                service_certificate = certificate,
                healthCheckPath = None,
                scaling = None,
                taskRoleGrants = []\<rparr>) this;
          this = updateConstruct service
            (configureHealthCheck (CONTAINER_HEALTHCHECK_PATH cfg)) this;
          this = updateConstruct rdsSecurityGroup
            (addIngressRule (ServiceSecurityGroup service 0) (Tcp 3306)) this;
          this = updateConstruct cacheSecurityGroup
            (addIngressRule (ServiceSecurityGroup service 0) (Tcp 6379)) this;
          this = updateConstruct service (autoScaleTaskCount 1 3) this;
          this = updateConstruct service (scaleOnCpuUtilization ''CpuScaling'' 50) this;
          this = updateConstruct service
            (scaleOnRequestCount ''RequestScaling'' 10000 service) this;
          this = updateConstruct service (grantReadWrite bucket) this
      in (service, this))"

text \<open>
  The cluster is created without \<open>credentials\<close>, so it owns a generated secret; the
  handle returned to the constructor carries it as \<open>rdsCluster.secret\<close>.
\<close>

definition createRdsCluster ::
  "construct_id \<Rightarrow> scope \<Rightarrow> construct_id \<times> database_cluster \<times> scope" where
  "createRdsCluster vpc this =
     (let rdsSecurityGroup = ''RdsSecurityGroup'';
          this = newConstruct rdsSecurityGroup [vpc]
            (SecurityGroup
               \<lparr>sg_vpc = vpc, description = ''Security group for RDS cluster'',
                ingressRules = []\<rparr>) this;
          this = newConstruct ''Database'' [vpc, rdsSecurityGroup]
            (DatabaseCluster
               \<lparr>engine = AuroraMysql ''VER_3_07_1'',
                writer = \<lparr>instance_id = ''writer'', instanceClass = M7G,
                          instanceSize = MEDIUM\<rparr>,
                readers = [\<lparr>instance_id = ''reader'', instanceClass = M7G,
                            instanceSize = MEDIUM\<rparr>],
                defaultDatabaseName = ''mysql'',
                db_vpc = vpc,
                securityGroups = [rdsSecurityGroup]\<rparr>) this
      in (rdsSecurityGroup,
          \<lparr>cluster_construct = ''Database'',
           cluster_secret = Some (GeneratedSecret ''Database'')\<rparr>,
          this))"

definition createCacheCluster ::
  "construct_id \<Rightarrow> scope \<Rightarrow> construct_id \<times> construct_id \<times> scope" where
  "createCacheCluster vpc this =
     (let cacheSecurityGroup = ''CacheSecurityGroup'';
          this = newConstruct cacheSecurityGroup [vpc]
            (SecurityGroup
               \<lparr>sg_vpc = vpc, description = ''Security group for Redis cache cluster'',
                ingressRules = []\<rparr>) this;
          this = newConstruct ''CacheCluster'' [cacheSecurityGroup]
            (CfnCacheCluster
               \<lparr>cache_engine = ''redis'',
                engineVersion = ''7.0'',
                numCacheNodes = 2,
                cacheNodeType = ''cache.t6g.large'',
                vpcSecurityGroupIds = [SecurityGroupId cacheSecurityGroup]\<rparr>) this
      in (cacheSecurityGroup, ''CacheCluster'', this))"

text \<open>
  The rule list of the web ACL: \<open>names.map((name, index) => ({...}))\<close>. The arrow
  function is \<open>managedRule\<close>; \<open>mapIndexed\<close> is the array's \<open>map\<close>, which hands each
  element and its index to the function.
\<close>

definition managedRule :: "string \<Rightarrow> nat \<Rightarrow> waf_rule" where
  "managedRule name index =
     \<lparr>rule_name = name,
      priority = index + 2,
      overrideAction = OverrideNone,
      managedRuleGroupStatement = \<lparr>vendorName = ''AWS'', group_name = name\<rparr>,
      rule_visibilityConfig =
        \<lparr>sampledRequestsEnabled = True, cloudWatchMetricsEnabled = True,
         metricName = name @ ''Metric''\<rparr>\<rparr>"

fun mapIndexed :: "('a \<Rightarrow> nat \<Rightarrow> 'b) \<Rightarrow> nat \<Rightarrow> 'a list \<Rightarrow> 'b list" where
  "mapIndexed f index [] = []"
| "mapIndexed f index (x # xs) = f x index # mapIndexed f (Suc index) xs"

definition managedRuleGroups :: "string list" where
  "managedRuleGroups =
     [''AWSManagedRulesCommonRuleSet'', ''AWSManagedRulesPHPRuleSet'',
      ''AWSManagedRulesWordPressRuleSet'', ''AWSManagedRulesSQLiRuleSet'']"

definition createWafWebAcl :: "scope \<Rightarrow> construct_id \<times> scope" where
  "createWafWebAcl this =
     (''WebAcl'',
      newConstruct ''WebAcl'' []
        (CfnWebACL
           \<lparr>defaultAction = Allow,
            acl_scope = ''CLOUDFRONT'',
            rules = mapIndexed managedRule 0 managedRuleGroups,
            acl_visibilityConfig =
              \<lparr>sampledRequestsEnabled = True, cloudWatchMetricsEnabled = True,
               metricName = ''WebAcl''\<rparr>\<rparr>) this)"

definition createCloudfrontDistribution ::
  "hosted_zone \<Rightarrow> construct_id \<Rightarrow> construct_id \<Rightarrow> construct_id \<Rightarrow> scope
     \<Rightarrow> construct_id \<times> scope" where
  "createCloudfrontDistribution route53Zone certificate loadBalancedEcsService wafWebAcl this =
     (let origin = \<lparr>loadBalancer = loadBalancedEcsService,
                     protocolPolicy = ORIGIN_HTTPS_ONLY,
                     httpPort = 80,
                     httpsPort = 443\<rparr>;
          this = newConstruct ''Distribution''
            [loadBalancedEcsService, certificate, wafWebAcl, zone_construct route53Zone]
            (Distribution
               \<lparr>origin = origin,
                viewerProtocolPolicy = REDIRECT_TO_HTTPS,
                allowedMethods = ALLOW_ALL,
                cachedMethods = CACHE_GET_HEAD_OPTIONS,
                domainNames = [zoneName route53Zone],
                distribution_certificate = certificate,
                webAclId = AttrArn wafWebAcl\<rparr>) this
      in (''Distribution'', this))"

definition createRoute53Record :: "hosted_zone \<Rightarrow> construct_id \<Rightarrow> scope \<Rightarrow> scope" where
  "createRoute53Record route53Zone cloudfrontDistribution this =
     newConstruct ''ARecord'' [cloudfrontDistribution, zone_construct route53Zone]
       (ARecord \<lparr>target = CloudFrontTarget cloudfrontDistribution,
                 zone = zone_construct route53Zone\<rparr>) this"

subsection \<open>The constructor\<close>

text \<open>
  \<open>new Stack(scope, id, props)\<close>. bin/app.ts passes the id \<open>"Stack"\<close> and an \<open>env\<close> read
  from the process environment (\<open>CDK_DEFAULT_ACCOUNT\<close>, \<open>CDK_DEFAULT_REGION\<close>, either of
  which may be unset).
\<close>

record stack_props =
  env_account :: "string option"
  env_region :: "string option"

record stack =
  stack_id :: construct_id
  stackProps :: "stack_props option"
  children :: scope

definition Stack :: "config \<Rightarrow> construct_id \<Rightarrow> stack_props option \<Rightarrow> stack" where
  "Stack cfg i p =
     (let this = [];
          (route53Zone, this) = importRoute53Zone cfg this;
          (vpc, this) = createVpc this;
          (wafWebAcl, this) = createWafWebAcl this;
          (bucket, this) = createBucket this;
          (rdsSecurityGroup, rdsCluster, this) = createRdsCluster vpc this;
          (cacheSecurityGroup, cacheCluster, this) = createCacheCluster vpc this;
          (ecsCluster, this) = createEcsCluster vpc this;
          (certificate, this) = createCertificate route53Zone this;
          (loadBalancedEcsService, this) =
            createLoadBalancedEcsService cfg ecsCluster rdsCluster cacheCluster
              rdsSecurityGroup cacheSecurityGroup certificate bucket this;
          (cloudfrontDistribution, this) =
            createCloudfrontDistribution route53Zone certificate loadBalancedEcsService
              wafWebAcl this;
          this = createRoute53Record route53Zone cloudfrontDistribution this
      in \<lparr>stack_id = i, stackProps = p, children = this\<rparr>)"

definition app :: "config \<Rightarrow> string option \<Rightarrow> string option \<Rightarrow> stack" where
  "app cfg account region =
     Stack cfg ''Stack'' (Some \<lparr>env_account = account, env_region = region\<rparr>)"

subsection \<open>Reading the finished graph\<close>

fun servicesOf :: "scope \<Rightarrow> (construct_id \<times> fargate_service) list" where
  "servicesOf [] = []"
| "servicesOf (n # ns) =
     (case props n of
        ApplicationLoadBalancedFargateService s \<Rightarrow> (node_id n, s) # servicesOf ns
      | _ \<Rightarrow> servicesOf ns)"

fun securityGroupsOf :: "scope \<Rightarrow> (construct_id \<times> security_group) list" where
  "securityGroupsOf [] = []"
| "securityGroupsOf (n # ns) =
     (case props n of
        SecurityGroup sg \<Rightarrow> (node_id n, sg) # securityGroupsOf ns
      | _ \<Rightarrow> securityGroupsOf ns)"

fun databasesOf :: "scope \<Rightarrow> (construct_id \<times> database_cluster_props) list" where
  "databasesOf [] = []"
| "databasesOf (n # ns) =
     (case props n of
        DatabaseCluster db \<Rightarrow> (node_id n, db) # databasesOf ns
      | _ \<Rightarrow> databasesOf ns)"

fun cacheClustersOf :: "scope \<Rightarrow> (construct_id \<times> cache_cluster_props) list" where
  "cacheClustersOf [] = []"
| "cacheClustersOf (n # ns) =
     (case props n of
        CfnCacheCluster c \<Rightarrow> (node_id n, c) # cacheClustersOf ns
      | _ \<Rightarrow> cacheClustersOf ns)"

fun certificatesOf :: "scope \<Rightarrow> (construct_id \<times> certificate_props) list" where
  "certificatesOf [] = []"
| "certificatesOf (n # ns) =
     (case props n of
        Certificate c \<Rightarrow> (node_id n, c) # certificatesOf ns
      | _ \<Rightarrow> certificatesOf ns)"

fun webAclsOf :: "scope \<Rightarrow> (construct_id \<times> web_acl_props) list" where
  "webAclsOf [] = []"
| "webAclsOf (n # ns) =
     (case props n of
        CfnWebACL a \<Rightarrow> (node_id n, a) # webAclsOf ns
      | _ \<Rightarrow> webAclsOf ns)"

fun distributionsOf :: "scope \<Rightarrow> (construct_id \<times> distribution_props) list" where
  "distributionsOf [] = []"
| "distributionsOf (n # ns) =
     (case props n of
        Distribution d \<Rightarrow> (node_id n, d) # distributionsOf ns
      | _ \<Rightarrow> distributionsOf ns)"

text \<open>The props of a construct that hold a deployment-time value, with their names.\<close>

fun tokensOf :: "construct \<Rightarrow> (string \<times> token) list" where
  "tokensOf (ApplicationLoadBalancedFargateService s) = environment s"
| "tokensOf (CfnCacheCluster c) = map (Pair ''vpcSecurityGroupIds'') (vpcSecurityGroupIds c)"
| "tokensOf (Distribution d) = [(''webAclId'', webAclId d)]"
| "tokensOf other = []"

fun isSecretReference :: "token \<Rightarrow> bool" where
  "isSecretReference (UnsafeUnwrap s field) = True"
| "isSecretReference other = False"

fun isPlain :: "token \<Rightarrow> bool" where
  "isPlain (Plain v) = True"
| "isPlain other = False"

definition bindingsWhere :: "(token \<Rightarrow> bool) \<Rightarrow> scope \<Rightarrow> (construct_id \<times> string \<times> token) list" where
  "bindingsWhere P g =
     concat (map (\<lambda>n. map (Pair (node_id n)) (filter (\<lambda>b. P (snd b)) (tokensOf (props n)))) g)"

definition secretBindings :: "scope \<Rightarrow> (construct_id \<times> string \<times> token) list" where
  "secretBindings g = bindingsWhere isSecretReference g"

definition plainBindings :: "scope \<Rightarrow> (construct_id \<times> string \<times> token) list" where
  "plainBindings g = bindingsWhere isPlain g"

definition domainSet :: "certificate_props \<Rightarrow> string set" where
  "domainSet c = set (domainName c # subjectAlternativeNames c)"

definition distributionDomainNames :: "scope \<Rightarrow> string list" where
  "distributionDomainNames g = concat (map (\<lambda>d. domainNames (snd d)) (distributionsOf g))"


definition securityGroupIngress :: "scope \<Rightarrow> (construct_id \<times> (peer \<times> port) list) list" where
  "securityGroupIngress g = map (\<lambda>b. (fst b, ingressRules (snd b))) (securityGroupsOf g)"

fun peerOwner :: "peer \<Rightarrow> construct_id" where
  "peerOwner (ServiceSecurityGroup s k) = s"

definition serviceDependsOn :: "scope \<Rightarrow> construct_id \<Rightarrow> construct_id \<Rightarrow> bool" where
  "serviceDependsOn g s boundary =
     list_ex (\<lambda>n. node_id n = s \<and> servicesOf [n] \<noteq> [] \<and> boundary \<in> set (dependsOn n)) g"

definition withinScalingBounds :: "fargate_service \<Rightarrow> bool" where
  "withinScalingBounds s =
     (case scaling s of
        None \<Rightarrow> False
      | Some sc \<Rightarrow> minCapacity sc \<le> desiredCount s \<and> desiredCount s \<le> maxCapacity sc)"

subsection \<open>Build order\<close>

text \<open>
  \<open>builtInOrder seen g\<close>: walking the children in creation order, every node has a
  fresh id and names as dependencies only nodes created before it.
\<close>

fun builtInOrder :: "construct_id list \<Rightarrow> scope \<Rightarrow> bool" where
  "builtInOrder seen [] = True"
| "builtInOrder seen (n # ns) =
     (node_id n \<notin> set seen \<and> set (dependsOn n) \<subseteq> set seen \<and>
      builtInOrder (node_id n # seen) ns)"

definition dependencyEdges :: "scope \<Rightarrow> (construct_id \<times> construct_id) set" where
  "dependencyEdges g = set (concat (map (\<lambda>n. map (Pair (node_id n)) (dependsOn n)) g))"

fun buildPosition :: "scope \<Rightarrow> construct_id \<Rightarrow> nat" where
  "buildPosition [] x = 0"
| "buildPosition (n # ns) x = (if node_id n = x then 0 else Suc (buildPosition ns x))"

definition exampleConfig :: config where
  "exampleConfig = sourceConfig\<lparr>ZONE_NAME := ''example.com''\<rparr>"

section \<open>The graph the constructor builds\<close>

lemmas builder_defs =
  importRoute53Zone_def createVpc_def createWafWebAcl_def createBucket_def
  createRdsCluster_def createCacheCluster_def createEcsCluster_def createCertificate_def
  createLoadBalancedEcsService_def createCloudfrontDistribution_def createRoute53Record_def
  newConstruct_def updateConstruct_def secretValueFromJson_def addPolicy_def

lemma managedRules_unfold:
  "mapIndexed managedRule 0 managedRuleGroups =
     [managedRule ''AWSManagedRulesCommonRuleSet'' 0,
      managedRule ''AWSManagedRulesPHPRuleSet'' 1,
      managedRule ''AWSManagedRulesWordPressRuleSet'' 2,
      managedRule ''AWSManagedRulesSQLiRuleSet'' 3]"
  by (simp add: managedRuleGroups_def numeral_2_eq_2 numeral_3_eq_3)

lemma children_Stack:
  "children (Stack cfg i p) =
    [\<lparr>node_id = ''Zone'', dependsOn = [],
      props = HostedZone \<lparr>zone_construct = ''Zone'', hostedZoneId = HOSTED_ZONE_ID cfg,
                           zoneName = ZONE_NAME cfg\<rparr>\<rparr>,
     \<lparr>node_id = ''Vpc'', dependsOn = [],
      props = Vpc \<lparr>maxAzs = 2, natGateways = 1,
                    subnetConfiguration =
                      [\<lparr>cidrMask = 24, subnet_name = ''public'', subnetType = PUBLIC\<rparr>,
                       \<lparr>cidrMask = 24, subnet_name = ''private'',
                        subnetType = PRIVATE_WITH_EGRESS\<rparr>]\<rparr>\<rparr>,
     \<lparr>node_id = ''WebAcl'', dependsOn = [],
      props = CfnWebACL
                \<lparr>defaultAction = Allow, acl_scope = ''CLOUDFRONT'',
                 rules = [managedRule ''AWSManagedRulesCommonRuleSet'' 0,
                          managedRule ''AWSManagedRulesPHPRuleSet'' 1,
                          managedRule ''AWSManagedRulesWordPressRuleSet'' 2,
                          managedRule ''AWSManagedRulesSQLiRuleSet'' 3],
                 acl_visibilityConfig =
                   \<lparr>sampledRequestsEnabled = True, cloudWatchMetricsEnabled = True,
                    metricName = ''WebAcl''\<rparr>\<rparr>\<rparr>,
     \<lparr>node_id = ''Bucket'', dependsOn = [], props = Bucket\<rparr>,
     \<lparr>node_id = ''RdsSecurityGroup'', dependsOn = [''Vpc''],
      props = SecurityGroup
                \<lparr>sg_vpc = ''Vpc'', description = ''Security group for RDS cluster'',
                 ingressRules = [(ServiceSecurityGroup ''Service'' 0, Tcp 3306)]\<rparr>\<rparr>,
     \<lparr>node_id = ''Database'', dependsOn = [''Vpc'', ''RdsSecurityGroup''],
      props = DatabaseCluster
                \<lparr>engine = AuroraMysql ''VER_3_07_1'',
                 writer = \<lparr>instance_id = ''writer'', instanceClass = M7G,
                           instanceSize = MEDIUM\<rparr>,
                 readers = [\<lparr>instance_id = ''reader'', instanceClass = M7G,
                             instanceSize = MEDIUM\<rparr>],
                 defaultDatabaseName = ''mysql'', db_vpc = ''Vpc'',
                 securityGroups = [''RdsSecurityGroup'']\<rparr>\<rparr>,
     \<lparr>node_id = ''CacheSecurityGroup'', dependsOn = [''Vpc''],
      props = SecurityGroup
                \<lparr>sg_vpc = ''Vpc'', description = ''Security group for Redis cache cluster'',
                 ingressRules = [(ServiceSecurityGroup ''Service'' 0, Tcp 6379)]\<rparr>\<rparr>,
     \<lparr>node_id = ''CacheCluster'', dependsOn = [''CacheSecurityGroup''],
      props = CfnCacheCluster
                \<lparr>cache_engine = ''redis'', engineVersion = ''7.0'', numCacheNodes = 2,
                 cacheNodeType = ''cache.t6g.large'',
                 vpcSecurityGroupIds = [SecurityGroupId ''CacheSecurityGroup'']\<rparr>\<rparr>,
     \<lparr>node_id = ''Cluster'', dependsOn = [''Vpc''], props = Cluster ''Vpc''\<rparr>,
     \<lparr>node_id = ''Certificate'', dependsOn = [''Zone''],
      props = Certificate
                \<lparr>domainName = ZONE_NAME cfg,
                 subjectAlternativeNames = [''*.'' @ ZONE_NAME cfg],
                 validation = FromDns ''Zone''\<rparr>\<rparr>,
     \<lparr>node_id = ''Service'',
      dependsOn = [''Cluster'', ''Database'', ''CacheCluster'', ''RdsSecurityGroup'',
                   ''CacheSecurityGroup'', ''Certificate'', ''Bucket''],
      props = ApplicationLoadBalancedFargateService
                \<lparr>service_cluster = ''Cluster'', memoryLimitMiB = 1024, listenerPort = 443,
                 image = FromAsset ''./app'', containerPort = CONTAINER_PORT cfg,
                 environment =
                   [(''DB_HOST'', ClusterEndpointHostname ''Database''),
                    (''DB_USER'', UnsafeUnwrap (GeneratedSecret ''Database'') ''username''),
                    (''DB_PASSWORD'', UnsafeUnwrap (GeneratedSecret ''Database'') ''password''),
                    (''DB_NAME'', Plain ''wordpress''),
                    (''CACHE_HOST'', AttrRedisEndpointAddress ''CacheCluster'')],
                 desiredCount = 2, service_certificate = ''Certificate'',
                 healthCheckPath = Some (CONTAINER_HEALTHCHECK_PATH cfg),
                 scaling =
                   Some \<lparr>minCapacity = 1, maxCapacity = 3,
                         policies = [ScaleOnCpuUtilization ''CpuScaling'' 50,
                                     ScaleOnRequestCount ''RequestScaling'' 10000 ''Service'']\<rparr>,
                 taskRoleGrants = [ReadWrite ''Bucket'']\<rparr>\<rparr>,
     \<lparr>node_id = ''Distribution'',
      dependsOn = [''Service'', ''Certificate'', ''WebAcl'', ''Zone''],
      props = Distribution
                \<lparr>origin = \<lparr>loadBalancer = ''Service'', protocolPolicy = ORIGIN_HTTPS_ONLY,
                           httpPort = 80, httpsPort = 443\<rparr>,
                 viewerProtocolPolicy = REDIRECT_TO_HTTPS,
                 allowedMethods = ALLOW_ALL,
                 cachedMethods = CACHE_GET_HEAD_OPTIONS,
                 domainNames = [ZONE_NAME cfg],
                 distribution_certificate = ''Certificate'',
                 webAclId = AttrArn ''WebAcl''\<rparr>\<rparr>,
     \<lparr>node_id = ''ARecord'', dependsOn = [''Distribution'', ''Zone''],
      props = ARecord \<lparr>target = CloudFrontTarget ''Distribution'', zone = ''Zone''\<rparr>\<rparr>]"
  by (simp add: Stack_def builder_defs Let_def managedRules_unfold)

section \<open>General facts\<close>



lemma builtInOrder_fresh:
  "builtInOrder seen g \<Longrightarrow> n \<in> set g \<Longrightarrow> node_id n \<notin> set seen"
proof (induction g arbitrary: seen)
  case Nil
  then show ?case by simp
next
  case (Cons m g)
  show ?case
  proof (cases "n = m")
    case True
    with Cons.prems show ?thesis by simp
  next
    case False
    with Cons.prems have "builtInOrder (node_id m # seen) g" and "n \<in> set g" by auto
    from Cons.IH [OF this] show ?thesis by simp
  qed
qed

lemma edge_source: "(a, b) \<in> dependencyEdges g \<Longrightarrow> \<exists>n \<in> set g. node_id n = a"
  by (auto simp: dependencyEdges_def)

lemma dependencyEdges_Cons:
  "dependencyEdges (n # g) = Pair (node_id n) ` set (dependsOn n) \<union> dependencyEdges g"
  by (simp add: dependencyEdges_def)

lemma builtInOrder_edge:
  "builtInOrder seen g \<Longrightarrow> (a, b) \<in> dependencyEdges g
     \<Longrightarrow> b \<in> set seen \<or> buildPosition g b < buildPosition g a"
proof (induction g arbitrary: seen)
  case Nil
  then show ?case by (simp add: dependencyEdges_def)
next
  case (Cons n g)
  from Cons.prems(1) have deps: "set (dependsOn n) \<subseteq> set seen"
    and rest: "builtInOrder (node_id n # seen) g"
    by auto
  from Cons.prems(2) consider (head) "a = node_id n" "b \<in> set (dependsOn n)"
    | (tail) "(a, b) \<in> dependencyEdges g"
    by (auto simp: dependencyEdges_Cons)
  then show ?case
  proof cases
    case head
    with deps show ?thesis by auto
  next
    case tail
    from edge_source [OF tail] obtain m where m: "m \<in> set g" "node_id m = a" by blast
    from builtInOrder_fresh [OF rest m(1)] m(2) have an: "a \<noteq> node_id n" by auto
    from Cons.IH [OF rest tail]
    have "b = node_id n \<or> b \<in> set seen \<or> buildPosition g b < buildPosition g a" by auto
    with an show ?thesis by auto
  qed
qed

lemma builtInOrder_acyclic: "builtInOrder [] g \<Longrightarrow> acyclic (dependencyEdges g)"
proof (rule acyclicI_order [where f = "buildPosition g"])
  fix a b
  assume "builtInOrder [] g" and "(a, b) \<in> dependencyEdges g"
  from builtInOrder_edge [OF this] show "buildPosition g b < buildPosition g a" by simp
qed

lemma builtInOrder_Stack: "builtInOrder [] (children (Stack cfg i p))"
  by (simp add: children_Stack)

section \<open>The claims\<close>

text \<open>
  C1. In every build the database user name and password reach the graph only as
  references to the secret that the database cluster generates: the two bindings
  \<open>DB_USER\<close> and \<open>DB_PASSWORD\<close> of the service's environment are the only secret
  references of the whole graph, they name the fields \<open>username\<close> and \<open>password\<close> of
  the secret of \<open>Database\<close>, and the only plain string bound in any environment is the
  schema name. Whatever handle the service builder receives, a credential binding is
  never a plain string.
\<close>

theorem credentials_only_secret_references:
  "secretBindings (children (Stack cfg i p)) =
     [(''Service'', ''DB_USER'', UnsafeUnwrap (GeneratedSecret ''Database'') ''username''),
      (''Service'', ''DB_PASSWORD'', UnsafeUnwrap (GeneratedSecret ''Database'') ''password'')]
   \<and> plainBindings (children (Stack cfg i p)) = [(''Service'', ''DB_NAME'', Plain ''wordpress'')]
   \<and> map fst (databasesOf (children (Stack cfg i p))) = [''Database'']
   \<and> \<not> isPlain (secretValueFromJson s field)"
  by (simp add: children_Stack secretBindings_def plainBindings_def bindingsWhere_def
      secretValueFromJson_def split: option.split)

theorem credentials_only_secret_references_witness:
  "secretBindings (children (Stack sourceConfig ''Stack'' None)) =
     [(''Service'', ''DB_USER'', UnsafeUnwrap (GeneratedSecret ''Database'') ''username''),
      (''Service'', ''DB_PASSWORD'', UnsafeUnwrap (GeneratedSecret ''Database'') ''password'')]
   \<and> \<not> isPlain (secretValueFromJson (Some (GeneratedSecret ''Database'')) ''password'')"
  using credentials_only_secret_references
    [of sourceConfig "''Stack''" None "Some (GeneratedSecret ''Database'')" "''password''"]
  by simp



text \<open>
  C3, as the spec states it, fails: for the zone name \<open>example.com\<close> the distribution is
  bound to \<open>example.com\<close> alone; the wildcard name is on the certificate only.
\<close>

theorem wildcard_not_bound_to_distribution:
  "distributionDomainNames (children (Stack exampleConfig ''Stack'' None)) = [''example.com'']
   \<and> ''*.example.com'' \<notin> set (distributionDomainNames (children (Stack exampleConfig ''Stack'' None)))"
  by (simp add: children_Stack distributionDomainNames_def exampleConfig_def sourceConfig_def)

text \<open>
  C3, amended. For the configuration with the zone name \<open>example.com\<close> the graph has
  exactly one distribution; its bound domain names are \<open>example.com\<close> alone; it uses
  the single certificate of the graph, whose domain set is \<open>example.com\<close> and
  \<open>*.example.com\<close>, and that set covers the bound name.
\<close>

theorem distribution_bound_to_zone_name:
  "map fst (distributionsOf (children (Stack exampleConfig ''Stack'' None))) = [''Distribution'']
   \<and> distributionDomainNames (children (Stack exampleConfig ''Stack'' None)) = [''example.com'']
   \<and> map (\<lambda>d. distribution_certificate (snd d))
         (distributionsOf (children (Stack exampleConfig ''Stack'' None))) = [''Certificate'']
   \<and> map (\<lambda>c. (fst c, domainSet (snd c)))
         (certificatesOf (children (Stack exampleConfig ''Stack'' None)))
       = [(''Certificate'', {''example.com'', ''*.example.com''})]
   \<and> (\<forall>c \<in> set (certificatesOf (children (Stack exampleConfig ''Stack'' None))).
         set (distributionDomainNames (children (Stack exampleConfig ''Stack'' None)))
           \<subseteq> domainSet (snd c))"
  by (simp add: children_Stack distributionDomainNames_def domainSet_def exampleConfig_def
      sourceConfig_def)

theorem distribution_bound_to_zone_name_witness:
  "certificatesOf (children (Stack exampleConfig ''Stack'' None)) =
     [(''Certificate'',
       \<lparr>domainName = ''example.com'', subjectAlternativeNames = [''*.example.com''],
        validation = FromDns ''Zone''\<rparr>)]
   \<and> set (distributionDomainNames (children (Stack exampleConfig ''Stack'' None)))
       \<subseteq> {''example.com'', ''*.example.com''}"
proof -
  have certs: "certificatesOf (children (Stack exampleConfig ''Stack'' None)) =
     [(''Certificate'',
       \<lparr>domainName = ''example.com'', subjectAlternativeNames = [''*.example.com''],
        validation = FromDns ''Zone''\<rparr>)]"
    by (simp add: children_Stack exampleConfig_def sourceConfig_def)
  from distribution_bound_to_zone_name
  have "\<forall>c \<in> set (certificatesOf (children (Stack exampleConfig ''Stack'' None))).
         set (distributionDomainNames (children (Stack exampleConfig ''Stack'' None)))
           \<subseteq> domainSet (snd c)"
    by (elim conjE)
  with certs show ?thesis by (simp add: domainSet_def)
qed

text \<open>
  C4. When the constructor has finished, the security group of the database cluster
  holds the rule that admits the service's security group on port 3306, the security
  group of the cache cluster holds the rule that admits the same group on port 6379,
  no group holds a rule twice, and the source of every rule is the security group of a
  service that has the group among its dependencies.
\<close>

theorem ingress_rules_back_wired:
  "securityGroupIngress (children (Stack cfg i p)) =
     [(''RdsSecurityGroup'', [(ServiceSecurityGroup ''Service'' 0, Tcp 3306)]),
      (''CacheSecurityGroup'', [(ServiceSecurityGroup ''Service'' 0, Tcp 6379)])]
   \<and> map (\<lambda>d. (fst d, securityGroups (snd d))) (databasesOf (children (Stack cfg i p)))
       = [(''Database'', [''RdsSecurityGroup''])]
   \<and> map (\<lambda>c. (fst c, vpcSecurityGroupIds (snd c))) (cacheClustersOf (children (Stack cfg i p)))
       = [(''CacheCluster'', [SecurityGroupId ''CacheSecurityGroup''])]
   \<and> map fst (servicesOf (children (Stack cfg i p))) = [''Service'']
   \<and> (\<forall>b \<in> set (securityGroupIngress (children (Stack cfg i p))).
         distinct (snd b) \<and>
         (\<forall>r \<in> set (snd b).
            serviceDependsOn (children (Stack cfg i p)) (peerOwner (fst r)) (fst b)))"
  by (simp add: children_Stack securityGroupIngress_def serviceDependsOn_def)

theorem ingress_rules_back_wired_witness:
  "securityGroupIngress (children (Stack sourceConfig ''Stack'' None)) =
     [(''RdsSecurityGroup'', [(ServiceSecurityGroup ''Service'' 0, Tcp 3306)]),
      (''CacheSecurityGroup'', [(ServiceSecurityGroup ''Service'' 0, Tcp 6379)])]
   \<and> serviceDependsOn (children (Stack sourceConfig ''Stack'' None)) ''Service'' ''RdsSecurityGroup''
   \<and> serviceDependsOn (children (Stack sourceConfig ''Stack'' None)) ''Service'' ''CacheSecurityGroup''"
proof -
  note built = ingress_rules_back_wired [of sourceConfig "''Stack''" None]
  from built have rules: "securityGroupIngress (children (Stack sourceConfig ''Stack'' None)) =
     [(''RdsSecurityGroup'', [(ServiceSecurityGroup ''Service'' 0, Tcp 3306)]),
      (''CacheSecurityGroup'', [(ServiceSecurityGroup ''Service'' 0, Tcp 6379)])]"
    by (rule conjunct1)
  from built have "\<forall>b \<in> set (securityGroupIngress (children (Stack sourceConfig ''Stack'' None))).
         distinct (snd b) \<and>
         (\<forall>r \<in> set (snd b).
            serviceDependsOn (children (Stack sourceConfig ''Stack'' None)) (peerOwner (fst r)) (fst b))"
    by (elim conjE)
  with rules show ?thesis by simp
qed

text \<open>
  C5. For every configuration the constructs are created in the fixed order zone,
  network, firewall policy, bucket, database tier, cache tier, compute cluster,
  certificate, service, distribution, DNS record; every construct has a fresh id and
  depends only on constructs created before it; and the dependency relation has no
  cycle.
\<close>

theorem dependencies_built_earlier:
  "map node_id (children (Stack cfg i p)) =
     [''Zone'', ''Vpc'', ''WebAcl'', ''Bucket'', ''RdsSecurityGroup'', ''Database'',
      ''CacheSecurityGroup'', ''CacheCluster'', ''Cluster'', ''Certificate'', ''Service'',
      ''Distribution'', ''ARecord'']
   \<and> builtInOrder [] (children (Stack cfg i p))
   \<and> acyclic (dependencyEdges (children (Stack cfg i p)))
   \<and> (\<forall>e \<in> dependencyEdges (children (Stack cfg i p)).
         buildPosition (children (Stack cfg i p)) (snd e)
           < buildPosition (children (Stack cfg i p)) (fst e))"
proof -
  have order: "map node_id (children (Stack cfg i p)) =
     [''Zone'', ''Vpc'', ''WebAcl'', ''Bucket'', ''RdsSecurityGroup'', ''Database'',
      ''CacheSecurityGroup'', ''CacheCluster'', ''Cluster'', ''Certificate'', ''Service'',
      ''Distribution'', ''ARecord'']"
    by (simp add: children_Stack)
  have earlier: "buildPosition (children (Stack cfg i p)) (snd e)
           < buildPosition (children (Stack cfg i p)) (fst e)"
    if "e \<in> dependencyEdges (children (Stack cfg i p))" for e
  proof -
    from that have "(fst e, snd e) \<in> dependencyEdges (children (Stack cfg i p))" by simp
    from builtInOrder_edge [OF builtInOrder_Stack this] show ?thesis by simp
  qed
  from order builtInOrder_Stack builtInOrder_acyclic [OF builtInOrder_Stack] earlier
  show ?thesis by blast
qed

theorem dependencies_built_earlier_witness:
  "(''Service'', ''Database'') \<in> dependencyEdges (children (Stack sourceConfig ''Stack'' None))
   \<and> buildPosition (children (Stack sourceConfig ''Stack'' None)) ''Database''
       < buildPosition (children (Stack sourceConfig ''Stack'' None)) ''Service''
   \<and> builtInOrder [] (children (Stack sourceConfig ''Stack'' None))
   \<and> acyclic (dependencyEdges (children (Stack sourceConfig ''Stack'' None)))"
proof -
  have edge: "(''Service'', ''Database'') \<in> dependencyEdges (children (Stack sourceConfig ''Stack'' None))"
    by (simp add: children_Stack dependencyEdges_def)
  with dependencies_built_earlier [of sourceConfig "''Stack''" None] show ?thesis
    by fastforce
qed

text \<open>
  C7. The service's scaling controller has the bounds 1 and 3 and exactly two
  policies: CPU utilisation with target 50 percent, and request count with target
  10000 requests per target on the service's own target group.
\<close>

theorem autoscaling_controller:
  "map (\<lambda>s. (fst s, scaling (snd s))) (servicesOf (children (Stack cfg i p))) =
     [(''Service'',
       Some \<lparr>minCapacity = 1, maxCapacity = 3,
             policies = [ScaleOnCpuUtilization ''CpuScaling'' 50,
                         ScaleOnRequestCount ''RequestScaling'' 10000 ''Service'']\<rparr>)]"
  by (simp add: children_Stack)

theorem autoscaling_controller_witness:
  "map (\<lambda>s. (fst s, scaling (snd s))) (servicesOf (children (Stack sourceConfig ''Stack'' None))) =
     [(''Service'',
       Some \<lparr>minCapacity = 1, maxCapacity = 3,
             policies = [ScaleOnCpuUtilization ''CpuScaling'' 50,
                         ScaleOnRequestCount ''RequestScaling'' 10000 ''Service'']\<rparr>)]"
  using autoscaling_controller [of sourceConfig "''Stack''" None]
  by simp

text \<open>
  C8. The graph has exactly one distribution. Its origin is the service's load balancer
  with the protocol policy HTTPS only, declared with both the HTTP port 80 and the
  HTTPS port 443; the HTTPS port is the service's listener port. Viewers are redirected
  to HTTPS. The distribution names one certificate and one web ACL, and the graph has
  exactly one of each.
\<close>

theorem distribution_policies:
  "distributionsOf (children (Stack cfg i p)) =
     [(''Distribution'',
       \<lparr>origin = \<lparr>loadBalancer = ''Service'', protocolPolicy = ORIGIN_HTTPS_ONLY,
                  httpPort = 80, httpsPort = 443\<rparr>,
        viewerProtocolPolicy = REDIRECT_TO_HTTPS,
        allowedMethods = ALLOW_ALL,
        cachedMethods = CACHE_GET_HEAD_OPTIONS,
        domainNames = [ZONE_NAME cfg],
        distribution_certificate = ''Certificate'',
        webAclId = AttrArn ''WebAcl''\<rparr>)]
   \<and> map fst (certificatesOf (children (Stack cfg i p))) = [''Certificate'']
   \<and> map fst (webAclsOf (children (Stack cfg i p))) = [''WebAcl'']
   \<and> map (\<lambda>s. (fst s, listenerPort (snd s), service_certificate (snd s)))
         (servicesOf (children (Stack cfg i p))) = [(''Service'', 443, ''Certificate'')]"
  by (simp add: children_Stack)

theorem distribution_policies_witness:
  "map fst (distributionsOf (children (Stack exampleConfig ''Stack'' None))) = [''Distribution'']
   \<and> map fst (certificatesOf (children (Stack exampleConfig ''Stack'' None))) = [''Certificate'']
   \<and> map fst (webAclsOf (children (Stack exampleConfig ''Stack'' None))) = [''WebAcl'']"
  using distribution_policies [of exampleConfig "''Stack''" None]
  by simp

text \<open>
  C9. The schema name bound into the service's environment is \<open>wordpress\<close>, the default
  database name of the cluster is \<open>mysql\<close>, and the two differ: no cluster of the graph
  creates the schema the service is pointed at.
\<close>

theorem schema_name_mismatch:
  "map (\<lambda>s. map_of (environment (snd s)) ''DB_NAME'') (servicesOf (children (Stack cfg i p)))
     = [Some (Plain ''wordpress'')]
   \<and> map (\<lambda>d. defaultDatabaseName (snd d)) (databasesOf (children (Stack cfg i p))) = [''mysql'']
   \<and> (\<forall>s \<in> set (servicesOf (children (Stack cfg i p))).
       \<forall>d \<in> set (databasesOf (children (Stack cfg i p))).
         map_of (environment (snd s)) ''DB_NAME'' \<noteq> Some (Plain (defaultDatabaseName (snd d))))"
  by (simp add: children_Stack)

theorem schema_name_mismatch_witness:
  "map (\<lambda>s. map_of (environment (snd s)) ''DB_NAME'')
     (servicesOf (children (Stack sourceConfig ''Stack'' None))) = [Some (Plain ''wordpress'')]
   \<and> map (\<lambda>d. defaultDatabaseName (snd d))
     (databasesOf (children (Stack sourceConfig ''Stack'' None))) = [''mysql'']"
  using schema_name_mismatch [of sourceConfig "''Stack''" None]
  by simp

text \<open>
  C10. The desired task count of the service is 2 and lies between the bounds of its
  scaling controller, 1 and 3.
\<close>

theorem desired_count_within_bounds:
  "map (\<lambda>s. (desiredCount (snd s), map_option minCapacity (scaling (snd s)),
              map_option maxCapacity (scaling (snd s)), withinScalingBounds (snd s)))
     (servicesOf (children (Stack cfg i p))) = [(2, Some 1, Some 3, True)]"
  by (simp add: children_Stack withinScalingBounds_def)

theorem desired_count_within_bounds_witness:
  "map (\<lambda>s. (desiredCount (snd s), map_option minCapacity (scaling (snd s)),
              map_option maxCapacity (scaling (snd s)), withinScalingBounds (snd s)))
     (servicesOf (children (Stack sourceConfig ''Stack'' None))) = [(2, Some 1, Some 3, True)]"
  using desired_count_within_bounds [of sourceConfig "''Stack''" None]
  by simp

end
